theory Spec2Isabelle
  imports Main "HOL-Library.Sublist" "HOL-Library.Multiset"
begin

section \<open>The watchlist CLI (src/watchlist.ts)\<close>

text \<open>
  The program is a command-line client of one remote table, \<open>watchlist\<close>. Each of its
  five commands is an action of the form \<^verbatim>\<open>try { ... } catch (error) { console.error(...) }\<close>
  that sends one or two requests through the supabase client and prints lines.

  The embedding has three layers:
  \<^item> the remote table and the client calls the source uses
    (\<^verbatim>\<open>select/eq/ilike/order/maybeSingle/insert/update/delete\<close>), as functions on an
    explicit state \<open>remote\<close>;
  \<^item> the body of each action, returning either the thrown value or the printed lines;
  \<^item> the action itself: the body under its \<^verbatim>\<open>catch\<close> handler.

  A string is the list of its code units, written as Isabelle characters; the development
  covers code units below 256. The lines printed are values of a datatype: each constructor
  stands for one message of the source (the decoration around the text is left out).
\<close>

subsection \<open>Rows and the remote table\<close>

text \<open>
  A row has the four columns the source selects. The type of the \<open>id\<close> column is the
  store's choice (the README creates it as a UUID, \<^verbatim>\<open>remove\<close> reads its argument with
  \<^verbatim>\<open>parseInt\<close>), so it is a type parameter here.
\<close>

record 'id item =
  id_col :: 'id
  title :: string
  watched :: bool
  created_at :: nat

text \<open>
  The numbers \<^verbatim>\<open>parseInt\<close> can return: \<^verbatim>\<open>NaN\<close>, a double whose value is an
  integer, or an infinity.
\<close>

datatype number = NaN | Finite int | Pos_infinity | Neg_infinity

text \<open>
  A value handed to \<^verbatim>\<open>.eq("id", v)\<close>: \<^verbatim>\<open>toggle\<close> passes the command-line
  string, \<^verbatim>\<open>remove\<close> passes the number \<^verbatim>\<open>parseInt\<close> returned. The client
  writes a number into the request in the language's notation for it (decimal digits, and
  exponent notation from \<open>10 ^ 21\<close> on); what the store reads from either is the
  store's \<open>id_literal\<close> below.
\<close>

datatype jsvalue = Str string | Num number

text \<open>The filters the source builds: \<^verbatim>\<open>.eq("title", t)\<close>, \<^verbatim>\<open>.eq("id", v)\<close>,
  \<^verbatim>\<open>.ilike("title", p)\<close>.\<close>

datatype row_filter = Eq_title string | Eq_id jsvalue | Ilike_title string

text \<open>One request per awaited client call; the table is always \<open>watchlist\<close>.\<close>

datatype request =
    Select_maybeSingle row_filter
  | Select_order_created_at_desc
  | Select_where row_filter
  | Insert string bool
  | Update_watched bool row_filter
  | Delete row_filter

text \<open>
  The result \<^verbatim>\<open>{ data, error }\<close> of a client call: either the data or the
  error's message.
\<close>

datatype 'a response = Data 'a | Failed string

text \<open>
  The remote side, as far as the commands can observe it:
  \<^item> \<open>rows\<close>: the table, in the store's own order;
  \<^item> \<open>id_literal\<close>: how the store reads a value compared with the \<open>id\<close> column
    (\<open>None\<close>: the store rejects it, the call answers with an error);
  \<^item> \<open>id_default\<close>, \<open>serial\<close>, \<open>clock\<close>: the column defaults of an inserted
    row: the \<open>serial\<close>-th generated id and the store's time;
  \<^item> \<open>faults\<close>: a script of transport failures; its head decides the next call
    (\<open>Some m\<close>: that call answers with the error \<open>m\<close> and changes nothing), and an
    exhausted script means no failure;
  \<^item> \<open>calls\<close>: the requests sent so far.
\<close>

record 'id remote =
  rows :: "'id item list"
  id_literal :: "jsvalue \<Rightarrow> 'id option"
  id_default :: "nat \<Rightarrow> 'id"
  serial :: nat
  clock :: nat
  faults :: "string option list"
  calls :: "request list"

definition transport :: "request \<Rightarrow> 'id remote \<Rightarrow> string option \<times> 'id remote" where
  "transport q r =
     (case faults r of
        [] \<Rightarrow> (None, r\<lparr>calls := calls r @ [q]\<rparr>)
      | f # fs \<Rightarrow> (f, r\<lparr>faults := fs, calls := calls r @ [q]\<rparr>))"

subsection \<open>Pattern matching of the store (ILIKE)\<close>

text \<open>
  The store's \<open>ILIKE\<close>: in a pattern \<open>%\<close> stands for any sequence of characters,
  \<open>_\<close> for any single character, a backslash makes the next pattern character
  literal, every other character stands for itself; letters are compared without regard to
  case. The query interface reads \<open>*\<close> in a pattern as \<open>%\<close>. A pattern that ends in
  a lone backslash matches nothing here; no pattern built by \<^verbatim>\<open>search\<close> ends so.
\<close>

definition to_lower :: "char \<Rightarrow> char" where
  "to_lower c =
     (case map_of (zip ''ABCDEFGHIJKLMNOPQRSTUVWXYZ'' ''abcdefghijklmnopqrstuvwxyz'') c of
        Some d \<Rightarrow> d
      | None \<Rightarrow> c)"

definition star :: "char \<Rightarrow> char" where
  "star c = (if c = CHR ''*'' then CHR ''%'' else c)"

fun like_match :: "string \<Rightarrow> string \<Rightarrow> bool" where
  "like_match [] s = (s = [])"
| "like_match (p # ps) s =
     (if p = CHR ''%'' then
        like_match ps s \<or> (case s of [] \<Rightarrow> False | c # cs \<Rightarrow> like_match (p # ps) cs)
      else if p = CHR ''_'' then
        (case s of [] \<Rightarrow> False | c # cs \<Rightarrow> like_match ps cs)
      else if p = CHR 0x5C then
        (case ps of
           [] \<Rightarrow> False
         | q # qs \<Rightarrow> (case s of [] \<Rightarrow> False | c # cs \<Rightarrow> c = q \<and> like_match qs cs))
      else
        (case s of [] \<Rightarrow> False | c # cs \<Rightarrow> c = p \<and> like_match ps cs))"

definition ilike :: "string \<Rightarrow> string \<Rightarrow> bool" where
  "ilike pattern s = like_match (map to_lower (map star pattern)) (map to_lower s)"

subsection \<open>The client calls\<close>

text \<open>
  Whether a row passes a filter. \<open>eq\<close> on the title is equality of the strings;
  \<open>eq\<close> on the id compares with the id the store reads from the value.
\<close>

fun satisfies :: "'id remote \<Rightarrow> row_filter \<Rightarrow> 'id item \<Rightarrow> bool" where
  "satisfies r (Eq_title t) x = (title x = t)"
| "satisfies r (Eq_id v) x = (id_literal r v = Some (id_col x))"
| "satisfies r (Ilike_title p) x = ilike p (title x)"

fun filter_error :: "'id remote \<Rightarrow> row_filter \<Rightarrow> string option" where
  "filter_error r (Eq_id v) =
     (case id_literal r v of None \<Rightarrow> Some ''invalid input syntax'' | Some i \<Rightarrow> None)"
| "filter_error r f = None"

text \<open>
  \<^verbatim>\<open>.select(...).eq(...).maybeSingle()\<close>: no matching row gives \<^verbatim>\<open>data: null\<close>, one
  gives the row, more than one gives an error. The model returns the whole row; the source
  projects it to the column it names.
\<close>

definition select_maybeSingle ::
    "row_filter \<Rightarrow> 'id remote \<Rightarrow> 'id item option response \<times> 'id remote" where
  "select_maybeSingle f r =
     (case transport (Select_maybeSingle f) r of
        (Some m, r') \<Rightarrow> (Failed m, r')
      | (None, r') \<Rightarrow>
          (case filter_error r' f of
             Some m \<Rightarrow> (Failed m, r')
           | None \<Rightarrow>
               (case filter (satisfies r' f) (rows r') of
                  [] \<Rightarrow> (Data None, r')
                | [x] \<Rightarrow> (Data (Some x), r')
                | x # y # zs \<Rightarrow>
                    (Failed ''JSON object requested, multiple (or no) rows returned'', r'))))"

text \<open>\<^verbatim>\<open>.select(...).order("created_at", { ascending: false })\<close>.\<close>

definition order_created_at_desc :: "'id item list \<Rightarrow> 'id item list" where
  "order_created_at_desc xs = rev (sort_key created_at xs)"

definition select_order ::
    "'id remote \<Rightarrow> 'id item list response \<times> 'id remote" where
  "select_order r =
     (case transport Select_order_created_at_desc r of
        (Some m, r') \<Rightarrow> (Failed m, r')
      | (None, r') \<Rightarrow> (Data (order_created_at_desc (rows r')), r'))"

text \<open>\<^verbatim>\<open>.select(...).ilike("title", p)\<close>: the matching rows, in the store's order.\<close>

definition select_where ::
    "row_filter \<Rightarrow> 'id remote \<Rightarrow> 'id item list response \<times> 'id remote" where
  "select_where f r =
     (case transport (Select_where f) r of
        (Some m, r') \<Rightarrow> (Failed m, r')
      | (None, r') \<Rightarrow>
          (case filter_error r' f of
             Some m \<Rightarrow> (Failed m, r')
           | None \<Rightarrow> (Data (filter (satisfies r' f) (rows r')), r')))"

text \<open>\<^verbatim>\<open>.insert([{ title, watched }])\<close>: the store fills in \<open>id\<close> and
  \<open>created_at\<close>.\<close>

definition insert_row ::
    "string \<Rightarrow> bool \<Rightarrow> 'id remote \<Rightarrow> unit response \<times> 'id remote" where
  "insert_row t w r =
     (case transport (Insert t w) r of
        (Some m, r') \<Rightarrow> (Failed m, r')
      | (None, r') \<Rightarrow>
          (Data (),
           r'\<lparr>rows := rows r' @
                  [\<lparr>id_col = id_default r' (serial r'), title = t, watched = w,
                    created_at = clock r'\<rparr>],
              serial := serial r' + 1,
              clock := clock r' + 1\<rparr>))"

text \<open>\<^verbatim>\<open>.update({ watched: w }).eq(...)\<close>: every matching row is updated.\<close>

definition update_watched ::
    "bool \<Rightarrow> row_filter \<Rightarrow> 'id remote \<Rightarrow> unit response \<times> 'id remote" where
  "update_watched w f r =
     (case transport (Update_watched w f) r of
        (Some m, r') \<Rightarrow> (Failed m, r')
      | (None, r') \<Rightarrow>
          (case filter_error r' f of
             Some m \<Rightarrow> (Failed m, r')
           | None \<Rightarrow>
               (Data (),
                r'\<lparr>rows := map (\<lambda>x. if satisfies r' f x then x\<lparr>watched := w\<rparr> else x)
                               (rows r')\<rparr>)))"

text \<open>\<^verbatim>\<open>.delete().eq(...)\<close>: every matching row is deleted.\<close>

definition delete_rows ::
    "row_filter \<Rightarrow> 'id remote \<Rightarrow> unit response \<times> 'id remote" where
  "delete_rows f r =
     (case transport (Delete f) r of
        (Some m, r') \<Rightarrow> (Failed m, r')
      | (None, r') \<Rightarrow>
          (case filter_error r' f of
             Some m \<Rightarrow> (Failed m, r')
           | None \<Rightarrow>
               (Data (), r'\<lparr>rows := filter (\<lambda>x. \<not> satisfies r' f x) (rows r')\<rparr>)))"

subsection \<open>Validation, thrown values, printed lines\<close>

text \<open>
  \<^verbatim>\<open>z.string().min(1, ...).max(250, ...)\<close> compares the \<^verbatim>\<open>length\<close> of the string
  as it is given; \<^verbatim>\<open>parse\<close> throws a \<^verbatim>\<open>ZodError\<close> carrying the issues, or returns
  the object.
\<close>

datatype zod_issue = Too_small string | Too_big string

definition watchlistSchema_parse :: "string \<Rightarrow> zod_issue list + string" where
  "watchlistSchema_parse t =
     (let issues =
            (if length t < 1 then [Too_small ''Title cannot be empty''] else []) @
            (if length t > 250 then [Too_big ''Title is too long''] else [])
      in if issues = [] then Inr t else Inl issues)"

text \<open>
  What an action can throw: a \<^verbatim>\<open>ZodError\<close>, an \<^verbatim>\<open>Error\<close> made from a
  response's error message, or a value that is no instance of \<^verbatim>\<open>Error\<close>.
\<close>

datatype exn = ZodError "zod_issue list" | Error string | Thrown_value

datatype message = Issues "zod_issue list" | Text string

text \<open>The status shown at the end of an item line.\<close>

datatype marker = Watched_mark | Unwatched_mark

text \<open>The two texts of the line \<^verbatim>\<open>toggle\<close> prints after its update.\<close>

datatype status = Marked_as_unwatched | Marked_as_watched

text \<open>
  The lines of output. \<open>Console_error\<close> is the one line written with
  \<^verbatim>\<open>console.error\<close> (by the \<^verbatim>\<open>catch\<close> handlers); all others are written with
  \<^verbatim>\<open>console.log\<close>.
\<close>

datatype 'id line =
    Already_in_watchlist
  | Successfully_added
  | Watchlist_empty
  | Watchlist_header
  | Item_line 'id string marker
  | Blank
  | Item_not_found
  | Status_updated status
  | Invalid_id
  | Successfully_removed
  | No_matching
  | Search_header
  | Search_item_line 'id string marker
  | Console_error message

text \<open>
  The handler of every action:
  \<^verbatim>\<open>console.error(error instanceof Error ? error.message : fallback)\<close>.
\<close>

definition report :: "string \<Rightarrow> exn \<Rightarrow> 'id line" where
  "report fallback e =
     Console_error
       (case e of
          ZodError issues \<Rightarrow> Issues issues
        | Error m \<Rightarrow> Text m
        | Thrown_value \<Rightarrow> Text fallback)"

text \<open>
  \<^verbatim>\<open>try { body } catch (error) { handler }\<close>: the result of the body is either the
  thrown value (\<open>Inl\<close>) or the lines it printed; the handler prints one line and returns.
\<close>

definition try_catch ::
    "(exn + 'id line list) \<times> 'id remote \<Rightarrow> (exn \<Rightarrow> 'id line)
       \<Rightarrow> (exn + 'id line list) \<times> 'id remote" where
  "try_catch result handler =
     (case result of
        (Inl e, r) \<Rightarrow> (Inr [handler e], r)
      | (Inr out, r) \<Rightarrow> (Inr out, r))"

definition marker_of :: "bool \<Rightarrow> marker" where
  "marker_of w = (if w then Watched_mark else Unwatched_mark)"

subsection \<open>parseInt\<close>

text \<open>
  \<^verbatim>\<open>parseInt(id, 10)\<close>: leading white space is skipped, one sign is read, then the
  longest run of decimal digits, whatever follows it; no digit gives \<^verbatim>\<open>NaN\<close>. The
  number returned is the double nearest to the digits' value: \<open>to_double\<close> rounds a
  natural number to 53 significant bits, ties to the even neighbour, and gives \<open>None\<close>
  where the double is an infinity. (For more than 20 significant digits the language
  allows an implementation to read the later digits as 0; the model rounds the exact
  value.)
\<close>

definition is_space :: "char \<Rightarrow> bool" where
  "is_space c =
     (c \<in> set [CHR 0x09, CHR 0x0A, CHR 0x0B, CHR 0x0C, CHR 0x0D, CHR 0x20, CHR 0xA0])"

definition is_digit :: "char \<Rightarrow> bool" where
  "is_digit c = (c \<in> set ''0123456789'')"

definition digit_value :: "char \<Rightarrow> nat" where
  "digit_value c = of_char c - 48"

definition decimal :: "string \<Rightarrow> nat" where
  "decimal ds = foldl (\<lambda>n c. 10 * n + digit_value c) 0 ds"

fun bit_length :: "nat \<Rightarrow> nat" where
  "bit_length n = (if n = 0 then 0 else Suc (bit_length (n div 2)))"

definition to_double :: "nat \<Rightarrow> nat option" where
  "to_double n =
     (if n < 2 ^ 53 then Some n
      else
        let e = bit_length n - 53;
            q = n div 2 ^ e;
            rest = n mod 2 ^ e;
            q' = (if 2 ^ e < 2 * rest \<or> (2 * rest = 2 ^ e \<and> odd q) then q + 1 else q)
        in if q' * 2 ^ e < 2 ^ 1024 then Some (q' * 2 ^ e) else None)"

definition parseInt :: "string \<Rightarrow> number" where
  "parseInt s =
     (let S = dropWhile is_space s;
          negative = (case S of [] \<Rightarrow> False | c # cs \<Rightarrow> c = CHR ''-'');
          S' = (case S of
                  [] \<Rightarrow> S
                | c # cs \<Rightarrow> if c = CHR ''-'' \<or> c = CHR ''+'' then cs else S);
          Z = takeWhile is_digit S'
      in if Z = [] then NaN
         else
           (case to_double (decimal Z) of
              None \<Rightarrow> if negative then Neg_infinity else Pos_infinity
            | Some v \<Rightarrow> Finite (if negative then - int v else int v)))"

definition isNaN :: "number \<Rightarrow> bool" where
  "isNaN x = (x = NaN)"

subsection \<open>The five actions\<close>

text \<open>\<^verbatim>\<open>add <title>\<close> (lines 46 to 66).\<close>

definition add_try :: "string \<Rightarrow> 'id remote \<Rightarrow> (exn + 'id line list) \<times> 'id remote" where
  "add_try t r =
     (case watchlistSchema_parse t of
        Inl issues \<Rightarrow> (Inl (ZodError issues), r)
      | Inr validated \<Rightarrow>
          (case select_maybeSingle (Eq_title validated) r of
             (Failed m, r1) \<Rightarrow> (Inl (Error m), r1)
           | (Data (Some existing), r1) \<Rightarrow> (Inr [Already_in_watchlist], r1)
           | (Data None, r1) \<Rightarrow>
               (case insert_row validated False r1 of
                  (Failed m, r2) \<Rightarrow> (Inl (Error m), r2)
                | (Data u, r2) \<Rightarrow> (Inr [Successfully_added], r2))))"

definition add_action :: "string \<Rightarrow> 'id remote \<Rightarrow> (exn + 'id line list) \<times> 'id remote" where
  "add_action t r = try_catch (add_try t r) (report ''Invalid input'')"

text \<open>\<^verbatim>\<open>list\<close> (lines 71 to 86).\<close>

definition list_try :: "'id remote \<Rightarrow> (exn + 'id line list) \<times> 'id remote" where
  "list_try r =
     (case select_order r of
        (Failed m, r1) \<Rightarrow> (Inl (Error m), r1)
      | (Data data, r1) \<Rightarrow>
          (if length data = 0 then (Inr [Watchlist_empty], r1)
           else
             (Inr ([Watchlist_header] @
                   map (\<lambda>x. Item_line (id_col x) (title x) (marker_of (watched x))) data @
                   [Blank]),
              r1)))"

definition list_action :: "'id remote \<Rightarrow> (exn + 'id line list) \<times> 'id remote" where
  "list_action r = try_catch (list_try r) (report ''Failed to fetch watchlist'')"

text \<open>\<^verbatim>\<open>toggle <id>\<close> (lines 91 to 105).\<close>

definition toggle_try :: "string \<Rightarrow> 'id remote \<Rightarrow> (exn + 'id line list) \<times> 'id remote" where
  "toggle_try i r =
     (case select_maybeSingle (Eq_id (Str i)) r of
        (Failed m, r1) \<Rightarrow> (Inl (Error m), r1)
      | (Data None, r1) \<Rightarrow> (Inr [Item_not_found], r1)
      | (Data (Some item), r1) \<Rightarrow>
          (case update_watched (\<not> watched item) (Eq_id (Str i)) r1 of
             (Failed m, r2) \<Rightarrow> (Inl (Error m), r2)
           | (Data u, r2) \<Rightarrow>
               (Inr [Status_updated
                       (if watched item then Marked_as_unwatched else Marked_as_watched)],
                r2)))"

definition toggle_action ::
    "string \<Rightarrow> 'id remote \<Rightarrow> (exn + 'id line list) \<times> 'id remote" where
  "toggle_action i r = try_catch (toggle_try i r) (report ''Update failed'')"

text \<open>\<^verbatim>\<open>remove <id>\<close> (lines 110 to 134).\<close>

definition remove_try :: "string \<Rightarrow> 'id remote \<Rightarrow> (exn + 'id line list) \<times> 'id remote" where
  "remove_try i r =
     (let itemId = parseInt i in
      if isNaN itemId then (Inr [Invalid_id], r)
      else
        (case select_maybeSingle (Eq_id (Num itemId)) r of
           (Failed m, r1) \<Rightarrow> (Inl (Error m), r1)
         | (Data None, r1) \<Rightarrow> (Inr [Item_not_found], r1)
         | (Data (Some existingItem), r1) \<Rightarrow>
             (case delete_rows (Eq_id (Num itemId)) r1 of
                (Failed m, r2) \<Rightarrow> (Inl (Error m), r2)
              | (Data u, r2) \<Rightarrow> (Inr [Successfully_removed], r2))))"

definition remove_action ::
    "string \<Rightarrow> 'id remote \<Rightarrow> (exn + 'id line list) \<times> 'id remote" where
  "remove_action i r = try_catch (remove_try i r) (report ''Deletion failed'')"

text \<open>\<^verbatim>\<open>search <query>\<close> (lines 139 to 154).\<close>

definition search_try :: "string \<Rightarrow> 'id remote \<Rightarrow> (exn + 'id line list) \<times> 'id remote" where
  "search_try query r =
     (case select_where (Ilike_title (''%'' @ query @ ''%'')) r of
        (Failed m, r1) \<Rightarrow> (Inl (Error m), r1)
      | (Data data, r1) \<Rightarrow>
          (if length data = 0 then (Inr [No_matching], r1)
           else
             (Inr ([Search_header] @
                   map (\<lambda>x. Search_item_line (id_col x) (title x) (marker_of (watched x)))
                     data @
                   [Blank]),
              r1)))"

definition search_action ::
    "string \<Rightarrow> 'id remote \<Rightarrow> (exn + 'id line list) \<times> 'id remote" where
  "search_action query r = try_catch (search_try query r) (report ''Search failed'')"

subsection \<open>One invocation of the program\<close>

text \<open>
  \<^verbatim>\<open>program.parse(process.argv)\<close> runs the action of the command named on the command
  line. Nothing in an action sets an exit code, so the process ends with code 0 when the
  action returns, and with code 1 when a thrown value leaves the action.
\<close>

datatype command = Add string | List | Toggle string | Remove string | Search string




fun fallback :: "command \<Rightarrow> string" where
  "fallback (Add t) = ''Invalid input''"
| "fallback List = ''Failed to fetch watchlist''"
| "fallback (Toggle i) = ''Update failed''"
| "fallback (Remove i) = ''Deletion failed''"
| "fallback (Search q) = ''Search failed''"

subsection \<open>Notions of the specification\<close>

text \<open>The title with leading and trailing white space removed.\<close>

definition trimmed :: "string \<Rightarrow> string" where
  "trimmed s = rev (dropWhile is_space (rev (dropWhile is_space s)))"

text \<open>The title contains the query, letters compared without regard to case.\<close>

definition contains_ci :: "string \<Rightarrow> string \<Rightarrow> bool" where
  "contains_ci query t = sublist (map to_lower query) (map to_lower t)"

text \<open>The characters with a meaning of their own in a pattern, and queries free of them.\<close>

definition pattern_char :: "char \<Rightarrow> bool" where
  "pattern_char c = (c \<in> set [CHR ''%'', CHR ''_'', CHR ''*'', CHR 0x5C])"

definition plain :: "string \<Rightarrow> bool" where
  "plain query = (filter pattern_char query = [])"

text \<open>
  What a pattern says, rule by rule: \<open>%\<close> stands for any string, \<open>_\<close> for
  any one character, a backslash and the character after it for that character, and any
  other character for itself. \<open>accepts_ci\<close> reads a pattern as the store receives
  it (\<open>*\<close> rewritten to \<open>%\<close>) against a title, both with their letters folded.
\<close>

inductive accepts :: "string \<Rightarrow> string \<Rightarrow> bool" where
  empty: "accepts [] []"
| any_string: "accepts ps s \<Longrightarrow> accepts (CHR ''%'' # ps) (m @ s)"
| any_char: "accepts ps s \<Longrightarrow> accepts (CHR ''_'' # ps) (c # s)"
| escaped: "accepts ps s \<Longrightarrow> accepts (CHR 0x5C # p # ps) (p # s)"
| itself:
    "p \<noteq> CHR ''%'' \<Longrightarrow> p \<noteq> CHR ''_'' \<Longrightarrow> p \<noteq> CHR 0x5C \<Longrightarrow> accepts ps s \<Longrightarrow>
     accepts (p # ps) (p # s)"

definition accepts_ci :: "string \<Rightarrow> string \<Rightarrow> bool" where
  "accepts_ci pattern t = accepts (map to_lower (map star pattern)) (map to_lower t)"

text \<open>The result of \<^verbatim>\<open>search\<close> prints the line of the row.\<close>

definition listed :: "'id item \<Rightarrow> (exn + 'id line list) \<times> 'id remote \<Rightarrow> bool" where
  "listed x result =
     (case fst result of
        Inl e \<Rightarrow> False
      | Inr out \<Rightarrow> Search_item_line (id_col x) (title x) (marker_of (watched x)) \<in> set out)"


text \<open>
  A store for the concrete examples: its ids are 64-bit integers, and no failure is
  scripted. A finite number within the range is read as it is (every such number is
  written in plain decimal digits), a string as a decimal numeral within the range;
  everything else is rejected.
\<close>

definition in_range :: "int \<Rightarrow> int option" where
  "in_range n = (if - (2 ^ 63) \<le> n \<and> n < 2 ^ 63 then Some n else None)"

definition int_literal :: "jsvalue \<Rightarrow> int option" where
  "int_literal v =
     (case v of
        Num x \<Rightarrow> (case x of Finite n \<Rightarrow> in_range n | _ \<Rightarrow> None)
      | Str s \<Rightarrow>
          (case s of
             [] \<Rightarrow> None
           | c # cs \<Rightarrow>
               if c = CHR ''-'' \<and> cs \<noteq> [] \<and> list_all is_digit cs
               then in_range (- int (decimal cs))
               else if list_all is_digit s then in_range (int (decimal s))
               else None))"

definition store :: "int item list \<Rightarrow> int remote" where
  "store xs =
     \<lparr>rows = xs, id_literal = int_literal, id_default = int, serial = 100, clock = 100,
      faults = [], calls = []\<rparr>"

section \<open>Properties\<close>

declare bit_length.simps [simp del]

subsection \<open>The client calls\<close>

lemma transport_online: "faults r = [] \<Longrightarrow> transport q r = (None, r\<lparr>calls := calls r @ [q]\<rparr>)"
  by (simp add: transport_def)

lemma transport_snd:
  "rows (snd (transport q r)) = rows r"
  "id_literal (snd (transport q r)) = id_literal r"
  "calls (snd (transport q r)) = calls r @ [q]"
  by (simp_all add: transport_def split: list.split)

lemma satisfies_calls:
  "satisfies (r\<lparr>calls := c\<rparr>) f = satisfies r f"
  "satisfies (r\<lparr>faults := fs, calls := c\<rparr>) f = satisfies r f"
  by (rule ext, cases f, simp_all)+

lemma filter_error_calls:
  "filter_error (r\<lparr>calls := c\<rparr>) f = filter_error r f"
  "filter_error (r\<lparr>faults := fs, calls := c\<rparr>) f = filter_error r f"
  by (cases f, simp_all)+

lemma satisfies_transport: "satisfies (snd (transport q r)) f = satisfies r f"
  by (rule ext, cases f) (simp_all add: transport_snd)

lemma filter_error_transport: "filter_error (snd (transport q r)) f = filter_error r f"
  by (cases f) (simp_all add: transport_snd)

lemma select_maybeSingle_Data:
  assumes "select_maybeSingle f r = (Data d, r1)"
  shows "filter (satisfies r f) (rows r) = (case d of None \<Rightarrow> [] | Some x \<Rightarrow> [x])"
proof -
  obtain e r' where t: "transport (Select_maybeSingle f) r = (e, r')" by fastforce
  then have r': "r' = snd (transport (Select_maybeSingle f) r)" by simp
  have "filter (satisfies r' f) (rows r') = (case d of None \<Rightarrow> [] | Some x \<Rightarrow> [x])"
    using assms t by (auto simp: select_maybeSingle_def split: option.splits list.splits)
  then show ?thesis by (simp add: r' satisfies_transport transport_snd)
qed

lemma select_maybeSingle_snd:
  "snd (select_maybeSingle f r) = snd (transport (Select_maybeSingle f) r)"
  by (simp add: select_maybeSingle_def split: prod.split option.split list.split)

lemma select_maybeSingle_online:
  "faults r = [] \<Longrightarrow>
   select_maybeSingle f r =
     (case filter_error r f of
        Some m \<Rightarrow> Failed m
      | None \<Rightarrow>
          (case filter (satisfies r f) (rows r) of
             [] \<Rightarrow> Data None
           | [x] \<Rightarrow> Data (Some x)
           | x # y # zs \<Rightarrow> Failed ''JSON object requested, multiple (or no) rows returned''),
      r\<lparr>calls := calls r @ [Select_maybeSingle f]\<rparr>)"
  by (simp add: select_maybeSingle_def transport_online satisfies_calls filter_error_calls
      split: option.split list.split)

lemma filter_distinct_key:
  "distinct (map f xs) \<Longrightarrow> x \<in> set xs \<Longrightarrow> filter (\<lambda>y. f y = f x) xs = [x]"
proof (induction xs)
  case Nil
  then show ?case by simp
next
  case (Cons a xs)
  show ?case
  proof (cases "a = x")
    case True
    with Cons.prems have "f x \<notin> f ` set xs" by simp
    then have "\<forall>y\<in>set xs. f y \<noteq> f x" by (metis imageI)
    then have "filter (\<lambda>y. f y = f x) xs = []" by (simp add: filter_empty_conv)
    with True show ?thesis by simp
  next
    case False
    with Cons.prems have "x \<in> set xs" "f a \<noteq> f x" by auto
    with Cons show ?thesis by simp
  qed
qed

lemma add_present_unchanged:
  assumes "t \<in> title ` set (rows r)"
  shows "rows (snd (add_action t r)) = rows r \<and>
     calls (snd (add_action t r)) \<in> {calls r, calls r @ [Select_maybeSingle (Eq_title t)]}"
proof -
  from assms have ne: "filter (\<lambda>x. title x = t) (rows r) \<noteq> []"
    by (auto simp: filter_empty_conv)
  show ?thesis
  proof (cases "watchlistSchema_parse t")
    case (Inl issues)
    then show ?thesis by (simp add: add_action_def add_try_def try_catch_def)
  next
    case (Inr v)
    then have v: "v = t" by (simp add: watchlistSchema_parse_def Let_def split: if_splits)
    obtain res r1 where s: "select_maybeSingle (Eq_title t) r = (res, r1)" by fastforce
    have r1: "rows r1 = rows r" "calls r1 = calls r @ [Select_maybeSingle (Eq_title t)]"
      using select_maybeSingle_snd [of "Eq_title t" r] s by (simp_all add: transport_snd)
    have "res \<noteq> Data None"
    proof
      assume "res = Data None"
      with s have "filter (satisfies r (Eq_title t)) (rows r) = []"
        using select_maybeSingle_Data [of "Eq_title t" r None r1] by simp
      with ne show False by (simp add: filter_empty_conv)
    qed
    then show ?thesis using Inr v s r1
      by (cases res) (auto simp: add_action_def add_try_def try_catch_def split: option.splits)
  qed
qed


lemma watchlistSchema_parse_valid:
  "1 \<le> length t \<Longrightarrow> length t \<le> 250 \<Longrightarrow> watchlistSchema_parse t = Inr t"
  by (cases t) (simp_all add: watchlistSchema_parse_def)

lemma insert_row_snd:
  "rows (snd (insert_row t w r)) = rows r \<or>
   rows (snd (insert_row t w r)) =
     rows r @ [\<lparr>id_col = id_default r (serial r), title = t, watched = w, created_at = clock r\<rparr>]"
  by (simp add: insert_row_def transport_def split: list.split option.split)

lemma insert_row_online:
  "faults r = [] \<Longrightarrow>
   insert_row t w r =
     (Data (),
      r\<lparr>rows := rows r @
               [\<lparr>id_col = id_default r (serial r), title = t, watched = w, created_at = clock r\<rparr>],
        serial := serial r + 1, clock := clock r + 1, calls := calls r @ [Insert t w]\<rparr>)"
  by (simp add: insert_row_def transport_online)

lemma add_action_rows:
  "rows (snd (add_action t r)) = rows r \<or>
   (t \<notin> title ` set (rows r) \<and>
    rows (snd (add_action t r)) =
      rows r @ [\<lparr>id_col = id_default r (serial r), title = t, watched = False,
                 created_at = clock r\<rparr>])"
proof (cases "t \<in> title ` set (rows r)")
  case True
  then show ?thesis using add_present_unchanged by blast
next
  case False
  show ?thesis
  proof (cases "watchlistSchema_parse t")
    case (Inl issues)
    then show ?thesis by (simp add: add_action_def add_try_def try_catch_def)
  next
    case (Inr v)
    then have v: "v = t" by (simp add: watchlistSchema_parse_def Let_def split: if_splits)
    obtain res r1 where s: "select_maybeSingle (Eq_title t) r = (res, r1)" by fastforce
    have r1: "r1 = snd (transport (Select_maybeSingle (Eq_title t)) r)"
      using select_maybeSingle_snd [of "Eq_title t" r] s by simp
    have f: "id_default r1 = id_default r" "serial r1 = serial r" "clock r1 = clock r"
      "rows r1 = rows r"
      by (simp_all add: r1 transport_def split: list.split)
    from insert_row_snd [of t False r1] f
    have "rows (snd (insert_row t False r1)) = rows r \<or>
      rows (snd (insert_row t False r1)) =
        rows r @ [\<lparr>id_col = id_default r (serial r), title = t, watched = False,
                   created_at = clock r\<rparr>]"
      by simp
    then show ?thesis using Inr v s False f
      by (auto simp: add_action_def add_try_def try_catch_def
          split: response.splits option.splits prod.splits)
  qed
qed

lemma add_action_absent:
  assumes "t \<notin> title ` set (rows r)" "1 \<le> length t" "length t \<le> 250" "faults r = []"
  shows "add_action t r =
      (Inr [Successfully_added],
       r\<lparr>rows := rows r @
               [\<lparr>id_col = id_default r (serial r), title = t, watched = False,
                 created_at = clock r\<rparr>],
         serial := serial r + 1, clock := clock r + 1,
         calls := calls r @ [Select_maybeSingle (Eq_title t), Insert t False]\<rparr>)"
proof -
  from assms(1) have "filter (satisfies r (Eq_title t)) (rows r) = []"
    by (auto simp: filter_empty_conv)
  then show ?thesis
    using assms by (simp add: add_action_def add_try_def try_catch_def
        watchlistSchema_parse_valid select_maybeSingle_online insert_row_online)
qed

lemma select_by_id_absent:
  assumes "id_literal r v = Some k" "k \<notin> id_col ` set (rows r)"
  shows "filter (satisfies r (Eq_id v)) (rows r) = []"
  using assms by (auto simp: filter_empty_conv)

lemma select_by_id_present:
  assumes "id_literal r v = Some (id_col x)" "x \<in> set (rows r)" "distinct (map id_col (rows r))"
  shows "filter (satisfies r (Eq_id v)) (rows r) = [x]"
proof -
  have "filter (\<lambda>y. id_col y = id_col x) (rows r) = [x]"
    using assms by (simp add: filter_distinct_key)
  moreover have "satisfies r (Eq_id v) = (\<lambda>y. id_col y = id_col x)"
    using assms(1) by (auto simp: fun_eq_iff)
  ultimately show ?thesis by simp
qed

lemma update_watched_online:
  assumes "faults r = []" "id_literal r v = Some k"
  shows "update_watched w (Eq_id v) r =
     (Data (),
      r\<lparr>rows := map (\<lambda>x. if id_col x = k then x\<lparr>watched := w\<rparr> else x) (rows r),
        calls := calls r @ [Update_watched w (Eq_id v)]\<rparr>)"
proof -
  have "satisfies r (Eq_id v) = (\<lambda>y. id_col y = k)"
    using assms(2) by (auto simp: fun_eq_iff)
  then show ?thesis
    using assms by (simp add: update_watched_def transport_online filter_error_calls satisfies_calls)
qed

lemma toggle_action_absent:
  assumes "id_literal r (Str i) = Some k" "k \<notin> id_col ` set (rows r)"
  shows "rows (snd (toggle_action i r)) = rows r"
    and "calls (snd (toggle_action i r)) = calls r @ [Select_maybeSingle (Eq_id (Str i))]"
proof -
  obtain res r1 where s: "select_maybeSingle (Eq_id (Str i)) r = (res, r1)" by fastforce
  have r1: "rows r1 = rows r" "calls r1 = calls r @ [Select_maybeSingle (Eq_id (Str i))]"
    using select_maybeSingle_snd [of "Eq_id (Str i)" r] s by (simp_all add: transport_snd)
  have "res \<noteq> Data (Some x)" for x
    using select_maybeSingle_Data [of "Eq_id (Str i)" r "Some x" r1] s
      select_by_id_absent [OF assms] by auto
  then have "rows (snd (toggle_action i r)) = rows r \<and>
    calls (snd (toggle_action i r)) = calls r @ [Select_maybeSingle (Eq_id (Str i))]"
    using s r1 by (cases res) (auto simp: toggle_action_def toggle_try_def try_catch_def split: option.splits)
  then show "rows (snd (toggle_action i r)) = rows r"
    and "calls (snd (toggle_action i r)) = calls r @ [Select_maybeSingle (Eq_id (Str i))]"
    by simp_all
qed

lemma toggle_action_present:
  assumes "id_literal r (Str i) = Some (id_col x)" "x \<in> set (rows r)"
    "distinct (map id_col (rows r))" "faults r = []"
  shows "toggle_action i r =
     (Inr [Status_updated (if watched x then Marked_as_unwatched else Marked_as_watched)],
      r\<lparr>rows := map (\<lambda>y. if id_col y = id_col x then y\<lparr>watched := \<not> watched x\<rparr> else y) (rows r),
        calls := calls r @ [Select_maybeSingle (Eq_id (Str i)),
                            Update_watched (\<not> watched x) (Eq_id (Str i))]\<rparr>)"
  using assms select_by_id_present [OF assms(1-3)]
  by (simp add: toggle_action_def toggle_try_def try_catch_def select_maybeSingle_online
      update_watched_online)


lemma select_order_online:
  "faults r = [] \<Longrightarrow>
   select_order r =
     (Data (order_created_at_desc (rows r)), r\<lparr>calls := calls r @ [Select_order_created_at_desc]\<rparr>)"
  by (simp add: select_order_def transport_online)

lemma order_created_at_desc_mset: "mset (order_created_at_desc xs) = mset xs"
  by (simp add: order_created_at_desc_def)

lemma order_created_at_desc_sorted:
  "sorted_wrt (\<lambda>a b. created_at b \<le> created_at a) (order_created_at_desc xs)"
proof -
  have "sorted (map created_at (sort_key created_at xs))" by simp
  then have "sorted_wrt (\<lambda>a b. created_at a \<le> created_at b) (sort_key created_at xs)"
    by (simp add: sorted_wrt_map)
  then show ?thesis
    by (simp add: order_created_at_desc_def sorted_wrt_rev)
qed

lemma order_created_at_desc_length: "length (order_created_at_desc xs) = length xs"
  by (simp add: order_created_at_desc_def)

lemma order_created_at_desc_Nil: "order_created_at_desc xs = [] \<longleftrightarrow> xs = []"
  by (metis order_created_at_desc_mset mset_zero_iff)

subsection \<open>Patterns\<close>

declare like_match.simps(2) [simp del]

lemma like_match_percent_Nil: "like_match (CHR ''%'' # ps) [] = like_match ps []"
  by (simp add: like_match.simps(2))

lemma like_match_percent_Cons:
  "like_match (CHR ''%'' # ps) (c # cs) = (like_match ps (c # cs) \<or> like_match (CHR ''%'' # ps) cs)"
  by (simp add: like_match.simps(2))

lemma like_match_underscore:
  "like_match (CHR ''_'' # ps) s = (case s of [] \<Rightarrow> False | c # cs \<Rightarrow> like_match ps cs)"
  by (simp add: like_match.simps(2))

lemma like_match_escape:
  "like_match (CHR 0x5C # q # qs) s = (case s of [] \<Rightarrow> False | c # cs \<Rightarrow> c = q \<and> like_match qs cs)"
  by (simp add: like_match.simps(2))

lemma like_match_literal:
  "p \<noteq> CHR ''%'' \<Longrightarrow> p \<noteq> CHR ''_'' \<Longrightarrow> p \<noteq> CHR 0x5C \<Longrightarrow>
   like_match (p # ps) s = (case s of [] \<Rightarrow> False | c # cs \<Rightarrow> c = p \<and> like_match ps cs)"
  by (simp add: like_match.simps(2))

lemma like_match_percent_only: "like_match ''%'' s"
  by (induction s) (simp_all add: like_match_percent_Nil like_match_percent_Cons)

lemma like_match_percent:
  "like_match (CHR ''%'' # ps) s = (\<exists>pre post. s = pre @ post \<and> like_match ps post)"
proof (induction s)
  case Nil
  then show ?case by (simp add: like_match_percent_Nil)
next
  case (Cons c cs)
  show ?case
    by (auto simp: like_match_percent_Cons Cons Cons_eq_append_conv)
qed

lemma plain_Cons: "plain (p # ps) = (\<not> pattern_char p \<and> plain ps)"
  by (simp add: plain_def)

lemma like_match_plain:
  "plain p \<Longrightarrow> like_match (p @ rest) s = (\<exists>s'. s = p @ s' \<and> like_match rest s')"
proof (induction p arbitrary: s)
  case Nil
  then show ?case by simp
next
  case (Cons a p)
  then show ?case
    by (cases s) (auto simp: plain_Cons like_match_literal pattern_char_def)
qed

lemma to_lower_cases:
  "to_lower c = c \<or> c \<in> set ''ABCDEFGHIJKLMNOPQRSTUVWXYZ''"
  by (simp add: to_lower_def)


lemma pattern_char_to_lower: "pattern_char (to_lower c) = pattern_char c"
  using to_lower_cases [of c] by (auto simp: pattern_char_def to_lower_def)



lemma star_plain: "\<not> pattern_char c \<Longrightarrow> star c = c"
  by (simp add: pattern_char_def star_def)

lemma to_lower_percent: "to_lower (CHR ''%'') = CHR ''%''" "to_lower (CHR ''_'') = CHR ''_''"
  "to_lower (CHR ''x'') = CHR ''x''" "to_lower (CHR 0x5C) = CHR 0x5C"
  by (simp_all add: to_lower_def)

lemma map_star_plain: "plain q \<Longrightarrow> map star q = q"
  by (induction q) (simp_all add: plain_Cons star_plain)

lemma plain_map_to_lower: "plain (map to_lower q) = plain q"
  by (induction q) (simp_all add: plain_Cons pattern_char_to_lower plain_def)

lemma ilike_plain:
  assumes "plain q"
  shows "ilike (''%'' @ q @ ''%'') t = contains_ci q t"
proof -
  have "ilike (''%'' @ q @ ''%'') t =
      like_match (CHR ''%'' # map to_lower q @ ''%'') (map to_lower t)"
    using assms by (simp add: ilike_def map_star_plain star_def to_lower_percent)
  also have "\<dots> = (\<exists>pre post. map to_lower t = pre @ post \<and>
      (\<exists>s'. post = map to_lower q @ s' \<and> like_match ''%'' s'))"
    using assms by (simp add: like_match_percent like_match_plain plain_map_to_lower)
  also have "\<dots> = sublist (map to_lower q) (map to_lower t)"
    by (auto simp: like_match_percent_only sublist_def)
  finally show ?thesis by (simp add: contains_ci_def)
qed

lemma select_where_ilike_online:
  "faults r = [] \<Longrightarrow>
   select_where (Ilike_title p) r =
     (Data (filter (\<lambda>x. ilike p (title x)) (rows r)),
      r\<lparr>calls := calls r @ [Select_where (Ilike_title p)]\<rparr>)"
  by (simp add: select_where_def transport_online satisfies_calls cong: filter_cong)

lemma select_where_snd:
  "snd (select_where f r) = snd (transport (Select_where f) r)"
  by (simp add: select_where_def split: prod.split option.split)

lemma search_action_online:
  "faults r = [] \<Longrightarrow>
   search_action query r =
     (Inr (if filter (\<lambda>x. ilike (''%'' @ query @ ''%'') (title x)) (rows r) = []
           then [No_matching]
           else [Search_header] @
                map (\<lambda>x. Search_item_line (id_col x) (title x) (marker_of (watched x)))
                  (filter (\<lambda>x. ilike (''%'' @ query @ ''%'') (title x)) (rows r)) @
                [Blank]),
      r\<lparr>calls := calls r @ [Select_where (Ilike_title (''%'' @ query @ ''%''))]\<rparr>)"
  by (simp add: search_action_def search_try_def try_catch_def select_where_ilike_online)

lemma search_action_calls:
  "calls (snd (search_action query r)) =
     calls r @ [Select_where (Ilike_title (''%'' @ query @ ''%''))]"
proof -
  obtain res r1 where s: "select_where (Ilike_title (''%'' @ query @ ''%'')) r = (res, r1)"
    by fastforce
  have "calls r1 = calls r @ [Select_where (Ilike_title (''%'' @ query @ ''%''))]"
    using select_where_snd [of "Ilike_title (''%'' @ query @ ''%'')" r] s
    by (simp add: transport_snd)
  then show ?thesis using s
    by (cases res) (auto simp: search_action_def search_try_def try_catch_def)
qed

lemma listed_if_ilike:
  assumes "faults r = []" "x \<in> set (rows r)" "ilike (''%'' @ query @ ''%'') (title x)"
  shows "listed x (search_action query r)"
  using assms by (auto simp: listed_def search_action_online filter_empty_conv)


lemma instance_of_cases:
  fixes p :: char and ps :: string
  obtains (percent) "p = CHR ''%''"
  | (underscore) "p = CHR ''_''"
  | (escape_end) "p = CHR 0x5C" "ps = []"
  | (escape) q qs where "p = CHR 0x5C" "ps = q # qs"
  | (literal) "p \<noteq> CHR ''%''" "p \<noteq> CHR ''_''" "p \<noteq> CHR 0x5C"
  by (cases ps) auto









lemma like_match_escape_end: "like_match [CHR 0x5C] s = False"
  by (simp add: like_match.simps(2))

lemma accepts_imp_like_match: "accepts p s \<Longrightarrow> like_match p s"
proof (induction rule: accepts.induct)
  case empty
  show ?case by simp
next
  case (any_string ps s m)
  then show ?case by (auto simp: like_match_percent)
next
  case (any_char ps s c)
  then show ?case by (simp add: like_match_underscore)
next
  case (escaped ps s p)
  then show ?case by (simp add: like_match_escape)
next
  case (itself p ps s)
  then show ?case by (simp add: like_match_literal)
qed

lemma like_match_imp_accepts: "like_match p s \<Longrightarrow> accepts p s"
proof (induction p arbitrary: s rule: length_induct)
  case (1 p)
  show ?case
  proof (cases p)
    case Nil
    with 1 show ?thesis by (simp add: accepts.empty)
  next
    case (Cons q qs)
    show ?thesis
    proof (cases rule: instance_of_cases [where p = q and ps = qs])
      case percent
      with 1 Cons obtain pre post where "s = pre @ post" "like_match qs post"
        by (auto simp: like_match_percent)
      with 1 Cons percent show ?thesis by (auto intro: accepts.any_string)
    next
      case underscore
      with 1 Cons obtain c cs where "s = c # cs" "like_match qs cs"
        by (auto simp: like_match_underscore split: list.splits)
      with 1 Cons underscore show ?thesis by (auto intro: accepts.any_char)
    next
      case escape_end
      with 1 Cons show ?thesis by (simp add: like_match_escape_end)
    next
      case (escape q' qs')
      with 1 Cons obtain cs where "s = q' # cs" "like_match qs' cs"
        by (auto simp: like_match_escape split: list.splits)
      with 1 Cons escape show ?thesis by (auto intro: accepts.escaped)
    next
      case literal
      with 1 Cons obtain cs where "s = q # cs" "like_match qs cs"
        by (auto simp: like_match_literal split: list.splits)
      with 1 Cons literal show ?thesis by (auto intro: accepts.itself)
    qed
  qed
qed

lemma accepts_like_match: "accepts p s = like_match p s"
  using accepts_imp_like_match like_match_imp_accepts by blast

lemma accepts_ci_ilike: "accepts_ci pattern t = ilike pattern t"
  by (simp add: accepts_ci_def ilike_def accepts_like_match)

subsection \<open>add\<close>

text \<open>
  C1. Adding a title that some row already carries inserts nothing: the table is as
  before and at most the one lookup is sent, whatever the store answers. When the title
  has an accepted length, the store answers and the stored titles are pairwise distinct,
  the command prints that the title is already in the watchlist. Adding a title of
  accepted length that no row carries, with the store answering, appends exactly one row
  with that title and \<open>watched = False\<close>. In every case pairwise distinct titles
  stay pairwise distinct, so the command never creates a duplicate.
\<close>

theorem add_existing_and_new:
  "(t \<in> title ` set (rows r) \<longrightarrow>
      rows (snd (add_action t r)) = rows r \<and>
      calls (snd (add_action t r)) \<in> {calls r, calls r @ [Select_maybeSingle (Eq_title t)]}) \<and>
   (t \<in> title ` set (rows r) \<and> 1 \<le> length t \<and> length t \<le> 250 \<and> faults r = [] \<and>
    distinct (map title (rows r)) \<longrightarrow>
      fst (add_action t r) = Inr [Already_in_watchlist]) \<and>
   (t \<notin> title ` set (rows r) \<and> 1 \<le> length t \<and> length t \<le> 250 \<and> faults r = [] \<longrightarrow>
      fst (add_action t r) = Inr [Successfully_added] \<and>
      rows (snd (add_action t r)) =
        rows r @ [\<lparr>id_col = id_default r (serial r), title = t, watched = False,
                   created_at = clock r\<rparr>] \<and>
      calls (snd (add_action t r)) =
        calls r @ [Select_maybeSingle (Eq_title t), Insert t False]) \<and>
   (distinct (map title (rows r)) \<longrightarrow> distinct (map title (rows (snd (add_action t r)))))"
proof (intro conjI impI)
  assume "t \<in> title ` set (rows r)"
  then show "rows (snd (add_action t r)) = rows r"
    and "calls (snd (add_action t r)) \<in> {calls r, calls r @ [Select_maybeSingle (Eq_title t)]}"
    using add_present_unchanged [of t r] by simp_all
next
  assume a: "t \<in> title ` set (rows r) \<and> 1 \<le> length t \<and> length t \<le> 250 \<and> faults r = [] \<and>
    distinct (map title (rows r))"
  then obtain x where x: "x \<in> set (rows r)" "title x = t" by auto
  with a have "filter (\<lambda>y. title y = title x) (rows r) = [x]"
    using filter_distinct_key [of title "rows r" x] by simp
  then have "filter (satisfies r (Eq_title t)) (rows r) = [x]"
    using x by (simp cong: filter_cong)
  then show "fst (add_action t r) = Inr [Already_in_watchlist]"
    using a by (simp add: add_action_def add_try_def try_catch_def watchlistSchema_parse_valid
        select_maybeSingle_online)
next
  assume a: "t \<notin> title ` set (rows r) \<and> 1 \<le> length t \<and> length t \<le> 250 \<and> faults r = []"
  then have *: "add_action t r =
      (Inr [Successfully_added],
       r\<lparr>rows := rows r @
               [\<lparr>id_col = id_default r (serial r), title = t, watched = False,
                 created_at = clock r\<rparr>],
         serial := serial r + 1, clock := clock r + 1,
         calls := calls r @ [Select_maybeSingle (Eq_title t), Insert t False]\<rparr>)"
    using add_action_absent [of t r] by simp
  show "fst (add_action t r) = Inr [Successfully_added]"
    and "rows (snd (add_action t r)) =
        rows r @ [\<lparr>id_col = id_default r (serial r), title = t, watched = False,
                   created_at = clock r\<rparr>]"
    and "calls (snd (add_action t r)) =
        calls r @ [Select_maybeSingle (Eq_title t), Insert t False]"
    by (simp_all add: *)
next
  assume "distinct (map title (rows r))"
  then show "distinct (map title (rows (snd (add_action t r))))"
    using add_action_rows [of t r] by auto
qed

theorem add_existing_and_new_witness:
  "fst (add_action ''Dune''
          (store [\<lparr>id_col = 1, title = ''Dune'', watched = True, created_at = 5\<rparr>])) =
     Inr [Already_in_watchlist] \<and>
   rows (snd (add_action ''Dune''
          (store [\<lparr>id_col = 1, title = ''Dune'', watched = True, created_at = 5\<rparr>]))) =
     [\<lparr>id_col = 1, title = ''Dune'', watched = True, created_at = 5\<rparr>] \<and>
   fst (add_action ''Heat''
          (store [\<lparr>id_col = 1, title = ''Dune'', watched = True, created_at = 5\<rparr>])) =
     Inr [Successfully_added] \<and>
   rows (snd (add_action ''Heat''
          (store [\<lparr>id_col = 1, title = ''Dune'', watched = True, created_at = 5\<rparr>]))) =
     [\<lparr>id_col = 1, title = ''Dune'', watched = True, created_at = 5\<rparr>,
      \<lparr>id_col = 100, title = ''Heat'', watched = False, created_at = 100\<rparr>]"
  using
    add_existing_and_new
      [of "''Dune''" "store [\<lparr>id_col = 1, title = ''Dune'', watched = True, created_at = 5\<rparr>]"]
    add_existing_and_new
      [of "''Heat''" "store [\<lparr>id_col = 1, title = ''Dune'', watched = True, created_at = 5\<rparr>]"]
  by (simp add: store_def)

text \<open>
  C2, as the code has it. A title of length 0 or of length above 250, the length taken of
  the string as given, makes \<^verbatim>\<open>parse\<close> throw a \<^verbatim>\<open>ZodError\<close>; the action prints
  its message and the remote state is untouched: no request was sent.
\<close>

theorem add_rejects_bad_length:
  "length t = 0 \<or> 250 < length t \<Longrightarrow>
     add_try t r =
       (Inl (ZodError (if length t = 0 then [Too_small ''Title cannot be empty'']
                       else [Too_big ''Title is too long''])), r) \<and>
     add_action t r =
       (Inr [Console_error
               (Issues (if length t = 0 then [Too_small ''Title cannot be empty'']
                        else [Too_big ''Title is too long'']))], r)"
  by (auto simp: add_try_def add_action_def watchlistSchema_parse_def try_catch_def report_def)

theorem add_rejects_bad_length_witness:
  "add_action [] (store []) =
     (Inr [Console_error (Issues [Too_small ''Title cannot be empty''])], store []) \<and>
   add_action (replicate 251 CHR ''a'') (store []) =
     (Inr [Console_error (Issues [Too_big ''Title is too long''])], store [])"
  using add_rejects_bad_length [of "[]" "store []"]
    add_rejects_bad_length [of "replicate 251 CHR ''a''" "store []"]
  by simp

text \<open>
  C2, as the specification states it, fails: a title of three spaces has trimmed length 0,
  yet it is accepted, looked up and inserted.
\<close>

theorem add_accepts_blank_title:
  "length (trimmed ''   '') = 0 \<and>
   fst (add_action ''   '' (store [])) = Inr [Successfully_added] \<and>
   calls (snd (add_action ''   '' (store []))) =
     [Select_maybeSingle (Eq_title ''   ''), Insert ''   '' False] \<and>
   map title (rows (snd (add_action ''   '' (store [])))) = [''   '']"
  by (simp add: trimmed_def is_space_def add_action_def add_try_def try_catch_def
      watchlistSchema_parse_def select_maybeSingle_online insert_row_online store_def)

text \<open>
  C9. The lookup before the insert compares the title with \<open>eq\<close>, that is, as it is
  spelled. Take two titles of accepted length that differ, though they are equal up to
  the case of their letters, neither stored yet, the store answering. Adding the first
  inserts it; adding the first again is refused: the command prints that it is already in
  the watchlist, only the lookup is sent and the table is as before. Adding the second is
  not refused: it is inserted as well, and the table ends with a row for each. After
  that, adding either again is refused and changes no row.
\<close>

theorem add_is_case_sensitive:
  assumes "t1 \<noteq> t2" and "map to_lower t1 = map to_lower t2"
    and "1 \<le> length t1" and "length t1 \<le> 250"
    and "t1 \<notin> title ` set (rows r)" and "t2 \<notin> title ` set (rows r)" and "faults r = []"
  shows "fst (add_action t1 r) = Inr [Successfully_added] \<and>
     add_action t1 (snd (add_action t1 r)) =
       (Inr [Already_in_watchlist],
        (snd (add_action t1 r))
          \<lparr>calls := calls (snd (add_action t1 r)) @ [Select_maybeSingle (Eq_title t1)]\<rparr>) \<and>
     fst (add_action t2 (snd (add_action t1 r))) = Inr [Successfully_added] \<and>
     calls (snd (add_action t2 (snd (add_action t1 r)))) =
       calls r @ [Select_maybeSingle (Eq_title t1), Insert t1 False,
                  Select_maybeSingle (Eq_title t2), Insert t2 False] \<and>
     map title (rows (snd (add_action t2 (snd (add_action t1 r))))) =
       map title (rows r) @ [t1, t2] \<and>
     fst (add_action t1 (snd (add_action t2 (snd (add_action t1 r))))) =
       Inr [Already_in_watchlist] \<and>
     fst (add_action t2 (snd (add_action t2 (snd (add_action t1 r))))) =
       Inr [Already_in_watchlist] \<and>
     rows (snd (add_action t1 (snd (add_action t2 (snd (add_action t1 r)))))) =
       rows (snd (add_action t2 (snd (add_action t1 r)))) \<and>
     rows (snd (add_action t2 (snd (add_action t2 (snd (add_action t1 r)))))) =
       rows (snd (add_action t2 (snd (add_action t1 r))))"
proof -
  let ?r1 = "snd (add_action t1 r)"
  let ?r2 = "snd (add_action t2 ?r1)"
  let ?x1 = "\<lparr>id_col = id_default r (serial r), title = t1, watched = False,
              created_at = clock r\<rparr>"
  let ?x2 = "\<lparr>id_col = id_default r (serial r + 1), title = t2, watched = False,
              created_at = clock r + 1\<rparr>"
  note first = add_action_absent [OF assms(5,3,4,7)]
  have "length t2 = length t1"
    using assms(2) by (metis length_map)
  then have len: "1 \<le> length t2" "length t2 \<le> 250"
    using assms(3,4) by simp_all
  have none1: "filter (\<lambda>x. title x = t1) (rows r) = []"
    and none2: "filter (\<lambda>x. title x = t2) (rows r) = []"
    using assms(5,6) by (auto simp: filter_empty_conv)
  have rows1: "rows ?r1 = rows r @ [?x1]" and online1: "faults ?r1 = []"
    using assms(7) by (simp_all add: first)
  have absent: "t2 \<notin> title ` set (rows ?r1)"
    using assms(1,6) by (auto simp: rows1)
  note second = add_action_absent [OF absent len online1]
  have rows2: "rows ?r2 = rows r @ [?x1, ?x2]" and online2: "faults ?r2 = []"
    using online1 by (simp_all add: second) (simp_all add: first)
  have one1: "filter (\<lambda>x. title x = t1) (rows ?r1) = [?x1]"
    by (simp add: rows1 none1)
  have one21: "filter (\<lambda>x. title x = t1) (rows ?r2) = [?x1]"
    using assms(1) by (simp add: rows2 none1)
  have one22: "filter (\<lambda>x. title x = t2) (rows ?r2) = [?x2]"
    using assms(1) by (simp add: rows2 none2)
  have stored: "add_action t r' =
      (Inr [Already_in_watchlist], r'\<lparr>calls := calls r' @ [Select_maybeSingle (Eq_title t)]\<rparr>)"
    if "filter (\<lambda>x. title x = t) (rows r') = [x]" "1 \<le> length t" "length t \<le> 250"
      "faults r' = []" for t x and r' :: "'a remote"
  proof -
    have "filter (satisfies r' (Eq_title t)) (rows r') = [x]"
      using that(1) by (simp cong: filter_cong)
    then show ?thesis
      using that by (simp add: add_action_def add_try_def try_catch_def
          watchlistSchema_parse_valid select_maybeSingle_online)
  qed
  note again1 = stored [OF one1 assms(3,4) online1]
  note again21 = stored [OF one21 assms(3,4) online2]
  note again22 = stored [OF one22 len online2]
  have "calls ?r2 = calls r @ [Select_maybeSingle (Eq_title t1), Insert t1 False,
                  Select_maybeSingle (Eq_title t2), Insert t2 False]"
    by (simp add: second) (simp add: first)
  moreover have "fst (add_action t1 r) = Inr [Successfully_added]"
    by (simp add: first)
  moreover have "fst (add_action t2 ?r1) = Inr [Successfully_added]"
    by (simp add: second)
  moreover have "map title (rows ?r2) = map title (rows r) @ [t1, t2]"
    by (simp add: rows2)
  ultimately show ?thesis
    by (simp add: again1 again21 again22)
qed

theorem add_is_case_sensitive_witness:
  "map title (rows (snd (add_action ''dune'' (snd (add_action ''Dune'' (store [])))))) =
     [''Dune'', ''dune''] \<and>
   fst (add_action ''Dune'' (snd (add_action ''Dune'' (store [])))) =
     Inr [Already_in_watchlist] \<and>
   fst (add_action ''dune'' (snd (add_action ''Dune'' (store [])))) =
     Inr [Successfully_added]"
proof -
  have computed: "fst (add_action ''Dune'' (snd (add_action ''Dune'' (store [])))) =
      Inr [Already_in_watchlist] \<and>
    fst (add_action ''dune'' (snd (add_action ''Dune'' (store [])))) =
      Inr [Successfully_added]"
    by (simp add: add_action_def add_try_def try_catch_def watchlistSchema_parse_def
        select_maybeSingle_def insert_row_def transport_def store_def)
  from add_is_case_sensitive [of "''Dune''" "''dune''" "store []"]
  have "map title (rows (snd (add_action ''dune'' (snd (add_action ''Dune'' (store [])))))) =
     [''Dune'', ''dune'']"
    by (simp add: store_def to_lower_def)
  with computed show ?thesis by simp
qed

subsection \<open>toggle\<close>

text \<open>
  C3. For a row of the table whose id the store reads from the argument (ids being
  pairwise distinct, the store answering), one \<^verbatim>\<open>toggle\<close> sends an update that
  carries the negation of the row's \<open>watched\<close> value and changes that column of that
  row only; a second \<^verbatim>\<open>toggle\<close> with the same argument gives back the table as it was.
\<close>

theorem toggle_flips:
  assumes "id_literal r (Str i) = Some (id_col x)" and "x \<in> set (rows r)"
    and "distinct (map id_col (rows r))" and "faults r = []"
  shows "toggle_action i r =
     (Inr [Status_updated (if watched x then Marked_as_unwatched else Marked_as_watched)],
      r\<lparr>rows := map (\<lambda>y. if id_col y = id_col x then y\<lparr>watched := \<not> watched x\<rparr> else y) (rows r),
        calls := calls r @ [Select_maybeSingle (Eq_id (Str i)),
                            Update_watched (\<not> watched x) (Eq_id (Str i))]\<rparr>) \<and>
   rows (snd (toggle_action i (snd (toggle_action i r)))) = rows r"
proof -
  let ?x' = "x\<lparr>watched := \<not> watched x\<rparr>"
  let ?r1 = "snd (toggle_action i r)"
  note first = toggle_action_present [OF assms]
  have same: "y = x" if "y \<in> set (rows r)" "id_col y = id_col x" for y
    using that assms(2,3) by (meson distinct_map inj_onD)
  have rows1: "rows ?r1 = map (\<lambda>y. if id_col y = id_col x then ?x' else y) (rows r)"
    using same by (auto simp: first)
  have mem: "?x' \<in> set (rows ?r1)"
    using assms(2) by (force simp: rows1)
  have ids: "map id_col (rows ?r1) = map id_col (rows r)"
    by (simp add: rows1 comp_def if_distrib cong: if_cong)
  have lit: "id_literal ?r1 (Str i) = Some (id_col ?x')" and online: "faults ?r1 = []"
    using assms(1,4) by (simp_all add: first)
  have dist: "distinct (map id_col (rows ?r1))"
    using assms(3) by (simp only: ids)
  have "rows (snd (toggle_action i ?r1)) =
      map (\<lambda>y. if id_col y = id_col ?x' then y\<lparr>watched := \<not> watched ?x'\<rparr> else y) (rows ?r1)"
    by (subst toggle_action_present [OF lit mem dist online]) simp
  also have "\<dots> = map (\<lambda>y. if id_col y = id_col x then y\<lparr>watched := watched x\<rparr> else y) (rows ?r1)"
    by simp
  also have "\<dots> = map (\<lambda>y. if id_col y = id_col x then x else y) (rows r)"
    by (simp add: rows1 comp_def if_distrib cong: if_cong)
  also have "\<dots> = rows r"
    using same by (intro map_idI) auto
  finally show ?thesis using first by simp
qed

theorem toggle_flips_witness:
  "rows (snd (toggle_action ''1''
       (store [\<lparr>id_col = 1, title = ''Dune'', watched = True, created_at = 5\<rparr>]))) =
     [\<lparr>id_col = 1, title = ''Dune'', watched = False, created_at = 5\<rparr>] \<and>
   rows (snd (toggle_action ''1'' (snd (toggle_action ''1''
       (store [\<lparr>id_col = 1, title = ''Dune'', watched = True, created_at = 5\<rparr>]))))) =
     [\<lparr>id_col = 1, title = ''Dune'', watched = True, created_at = 5\<rparr>]"
  using toggle_flips
    [of "store [\<lparr>id_col = 1, title = ''Dune'', watched = True, created_at = 5\<rparr>]" "''1''"
        "\<lparr>id_col = 1, title = ''Dune'', watched = True, created_at = 5\<rparr>"]
  by (auto simp: store_def int_literal_def in_range_def is_digit_def decimal_def digit_value_def)

text \<open>
  C4. When the id the store reads from the argument belongs to no row, \<^verbatim>\<open>toggle\<close>
  sends the lookup and nothing else, so no update, and the table is as before, whatever
  the store answers; when the store answers, the action prints that the item was not
  found, from the body itself and not from the \<^verbatim>\<open>catch\<close> handler.
\<close>

theorem toggle_not_found:
  assumes "id_literal r (Str i) = Some k" and "k \<notin> id_col ` set (rows r)"
  shows "rows (snd (toggle_action i r)) = rows r \<and>
     calls (snd (toggle_action i r)) = calls r @ [Select_maybeSingle (Eq_id (Str i))] \<and>
     (faults r = [] \<longrightarrow>
        toggle_try i r =
          (Inr [Item_not_found], r\<lparr>calls := calls r @ [Select_maybeSingle (Eq_id (Str i))]\<rparr>) \<and>
        toggle_action i r =
          (Inr [Item_not_found], r\<lparr>calls := calls r @ [Select_maybeSingle (Eq_id (Str i))]\<rparr>))"
  using assms toggle_action_absent [OF assms] select_by_id_absent [OF assms]
  by (simp add: toggle_action_def toggle_try_def try_catch_def select_maybeSingle_online)

theorem toggle_not_found_witness:
  "toggle_action ''7'' (store [\<lparr>id_col = 1, title = ''Dune'', watched = True, created_at = 5\<rparr>]) =
     (Inr [Item_not_found],
      (store [\<lparr>id_col = 1, title = ''Dune'', watched = True, created_at = 5\<rparr>])
        \<lparr>calls := [Select_maybeSingle (Eq_id (Str ''7''))]\<rparr>)"
  using toggle_not_found [of "store [\<lparr>id_col = 1, title = ''Dune'', watched = True, created_at = 5\<rparr>]" "''7''" 7]
  by (simp add: store_def int_literal_def in_range_def is_digit_def decimal_def digit_value_def)

subsection \<open>list\<close>

text \<open>
  C6. With the store answering, \<^verbatim>\<open>list\<close> sends the one ordered select. On an empty
  table it prints that the watchlist is empty, as a line of the body and not of the
  handler. Otherwise it prints the header, one line per row with the row's id, title and
  watched marker, and a blank line; the rows printed are all rows of the table, each once,
  in an order in which \<open>created_at\<close> never increases.
\<close>

theorem list_newest_first:
  assumes "faults r = []"
  shows "list_action r =
     (Inr (if rows r = [] then [Watchlist_empty]
           else [Watchlist_header] @
                map (\<lambda>x. Item_line (id_col x) (title x) (marker_of (watched x)))
                  (order_created_at_desc (rows r)) @
                [Blank]),
      r\<lparr>calls := calls r @ [Select_order_created_at_desc]\<rparr>) \<and>
   mset (order_created_at_desc (rows r)) = mset (rows r) \<and>
   length (order_created_at_desc (rows r)) = length (rows r) \<and>
   sorted_wrt (\<lambda>a b. created_at b \<le> created_at a) (order_created_at_desc (rows r))"
  using assms
  by (simp add: list_action_def list_try_def try_catch_def select_order_online
      order_created_at_desc_mset order_created_at_desc_sorted order_created_at_desc_Nil
      order_created_at_desc_length)

theorem list_newest_first_witness:
  "fst (list_action (store [])) = Inr [Watchlist_empty] \<and>
   fst (list_action (store
      [\<lparr>id_col = 1, title = ''Dune'', watched = True, created_at = 5\<rparr>,
       \<lparr>id_col = 2, title = ''Heat'', watched = False, created_at = 9\<rparr>])) =
     Inr [Watchlist_header, Item_line 2 ''Heat'' Unwatched_mark,
          Item_line 1 ''Dune'' Watched_mark, Blank]"
  using list_newest_first [of "store []"]
    list_newest_first [of "store
      [\<lparr>id_col = 1, title = ''Dune'', watched = True, created_at = 5\<rparr>,
       \<lparr>id_col = 2, title = ''Heat'', watched = False, created_at = 9\<rparr>]"]
  by (simp add: store_def order_created_at_desc_def marker_of_def)

subsection \<open>remove\<close>

text \<open>
  C5 does not hold of the code. \<^verbatim>\<open>parseInt\<close> reads the digits an argument starts
  with and ignores what follows them, and \<^verbatim>\<open>isNaN\<close> is the only check. So the
  argument \<open>1abc\<close>, which is no number, is taken for 1: the lookup and the delete
  are sent and the row with id 1 is removed, where the claim has the command stop before
  any request. And the argument \<open>9007199254740993\<close>, a number that is the id of no
  row, is taken for the double 9007199254740992: the row with that id is removed, where
  the claim has the command report that the item was not found and delete nothing.
\<close>

theorem remove_reads_a_numeric_prefix:
  "parseInt ''1abc'' = Finite 1 \<and>
   remove_action ''1abc''
     (store [\<lparr>id_col = 1, title = ''Dune'', watched = True, created_at = 5\<rparr>]) =
     (Inr [Successfully_removed],
      (store [])\<lparr>calls := [Select_maybeSingle (Eq_id (Num (Finite 1))),
                          Delete (Eq_id (Num (Finite 1)))]\<rparr>) \<and>
   parseInt ''9007199254740993'' = Finite 9007199254740992 \<and>
   remove_action ''9007199254740993''
     (store [\<lparr>id_col = 9007199254740992, title = ''Dune'', watched = True,
              created_at = 5\<rparr>]) =
     (Inr [Successfully_removed],
      (store [])\<lparr>calls := [Select_maybeSingle (Eq_id (Num (Finite 9007199254740992))),
                          Delete (Eq_id (Num (Finite 9007199254740992)))]\<rparr>)"
proof -
  have small: "parseInt ''1abc'' = Finite 1"
    by (simp add: parseInt_def is_space_def is_digit_def decimal_def digit_value_def
        to_double_def)
  have "bit_length 9007199254740993 = 54"
    by (simp add: bit_length.simps)
  then have "to_double 9007199254740993 = Some 9007199254740992"
    by (simp add: to_double_def)
  then have large: "parseInt ''9007199254740993'' = Finite 9007199254740992"
    by (simp add: parseInt_def is_space_def is_digit_def decimal_def digit_value_def)
  show ?thesis
    by (simp add: small large remove_action_def remove_try_def try_catch_def isNaN_def
        select_maybeSingle_online delete_rows_def transport_online store_def
        int_literal_def in_range_def Let_def)
qed

subsection \<open>search\<close>

text \<open>
  C7, as the code has it. For a query free of the pattern characters (\<open>%\<close>,
  \<open>_\<close>, \<open>*\<close> and the backslash), with the store answering, \<^verbatim>\<open>search\<close>
  sends the one filtered select and prints exactly the rows whose title contains the
  query, letters compared without regard to case, in the order of the table; when there
  is none it prints that nothing matches, as a line of the body and not of the handler.
\<close>

theorem search_plain_query:
  assumes "plain query" and "faults r = []"
  shows "search_action query r =
     (Inr (if filter (\<lambda>x. contains_ci query (title x)) (rows r) = [] then [No_matching]
           else [Search_header] @
                map (\<lambda>x. Search_item_line (id_col x) (title x) (marker_of (watched x)))
                  (filter (\<lambda>x. contains_ci query (title x)) (rows r)) @
                [Blank]),
      r\<lparr>calls := calls r @ [Select_where (Ilike_title (''%'' @ query @ ''%''))]\<rparr>)"
  using assms by (simp only: search_action_online ilike_plain)

theorem search_plain_query_witness:
  "fst (search_action ''batman'' (store
      [\<lparr>id_col = 1, title = ''The Batman'', watched = True, created_at = 5\<rparr>,
       \<lparr>id_col = 2, title = ''Inception'', watched = False, created_at = 9\<rparr>])) =
     Inr [Search_header, Search_item_line 1 ''The Batman'' Watched_mark, Blank] \<and>
   fst (search_action ''alien'' (store
      [\<lparr>id_col = 1, title = ''The Batman'', watched = True, created_at = 5\<rparr>,
       \<lparr>id_col = 2, title = ''Inception'', watched = False, created_at = 9\<rparr>])) =
     Inr [No_matching]"
  using search_plain_query [of "''batman''" "store
      [\<lparr>id_col = 1, title = ''The Batman'', watched = True, created_at = 5\<rparr>,
       \<lparr>id_col = 2, title = ''Inception'', watched = False, created_at = 9\<rparr>]"]
    search_plain_query [of "''alien''" "store
      [\<lparr>id_col = 1, title = ''The Batman'', watched = True, created_at = 5\<rparr>,
       \<lparr>id_col = 2, title = ''Inception'', watched = False, created_at = 9\<rparr>]"]
  by (simp add: store_def plain_def pattern_char_def contains_ci_def to_lower_def
      sublist_code marker_of_def)

text \<open>
  C7, as the specification states it for every query, fails: the query \<open>_\<close> lists a
  row titled \<open>Dune\<close>, and the query \<open>%\<close> does, though the title contains
  neither.
\<close>

theorem search_underscore_matches_any:
  "\<not> contains_ci ''_'' ''Dune'' \<and>
   fst (search_action ''_''
          (store [\<lparr>id_col = 1, title = ''Dune'', watched = True, created_at = 5\<rparr>])) =
     Inr [Search_header, Search_item_line 1 ''Dune'' Watched_mark, Blank] \<and>
   \<not> contains_ci ''%'' ''Dune'' \<and>
   fst (search_action ''%''
          (store [\<lparr>id_col = 1, title = ''Dune'', watched = True, created_at = 5\<rparr>])) =
     Inr [Search_header, Search_item_line 1 ''Dune'' Watched_mark, Blank]"
  by (simp add: search_action_online store_def contains_ci_def to_lower_def sublist_code
      ilike_def star_def like_match.simps(2) marker_of_def)




subsection \<open>Errors and the end of the process\<close>



end
